theory Spec2Isabelle
  imports Complex_Main
begin

section \<open>The lane-racing game of renderer.js\<close>

text \<open>
  The renderer keeps its whole simulation in module-level variables that the functions
  \<^verbatim>\<open>resetGame\<close>, \<^verbatim>\<open>endGame\<close>, \<^verbatim>\<open>spawnEnemy\<close>, \<^verbatim>\<open>update\<close>, \<^verbatim>\<open>gameLoop\<close> and the keydown
  handler read and write. Here the variables are the fields of one record and every
  function takes the record and returns the new one. The source file holds two revisions
  of the renderer; the model follows the first one, which has the road margin and the
  sounds. In the second one \<^verbatim>\<open>roadMargin\<close> is absent from the lane centres and
  \<^verbatim>\<open>resetGame\<close> and \<^verbatim>\<open>endGame\<close> play no sound; \<^verbatim>\<open>update\<close>, \<^verbatim>\<open>gameLoop\<close> and the keydown
  handler are otherwise the same.

  JavaScript numbers: \<^verbatim>\<open>score\<close>, \<^verbatim>\<open>highScore\<close>, \<^verbatim>\<open>spawnTimer\<close> and the lane indices only
  ever hold integers and are of type \<open>int\<close>; speeds, coordinates, sizes and timestamps
  are of type \<open>real\<close>. The arithmetic is exact: the rounding of IEEE doubles is outside
  this model.

  What the functions read from their surroundings is an argument or a field:
  the two \<^verbatim>\<open>Math.random()\<close> results a spawn consumes, the handle that
  \<^verbatim>\<open>requestAnimationFrame\<close> returns, \<^verbatim>\<open>performance.now()\<close> and the key of a keydown event,
  the \<^verbatim>\<open>paused\<close> flag of the background audio element, and whether
  \<^verbatim>\<open>window.electronAPI.setHighScore\<close> exists. Calls that leave the program (audio
  playback, the persistence call) are appended to the field \<open>effects\<close>. Drawing only
  reads the state and is left out.
\<close>

subsection \<open>Data\<close>

text \<open>The player object and the entries of \<^verbatim>\<open>enemies\<close> have the same shape.\<close>

record car =
  lane :: int
  x :: real
  y :: real
  w :: real
  h :: real
  color :: string

datatype effect = CrashAudioPlay | BgAudioPlay | BgAudioPause | SetHighScore int

record game =
  W :: real
  H :: real
  running :: bool
  score :: int
  speed :: real
  highScore :: int
  animationFrameId :: "nat option"
  laneWidth :: real
  roadMargin :: real
  enemyDefaultW :: real
  enemyDefaultH :: real
  crashAudioLoaded :: bool
  bgAudioLoaded :: bool
  bgAudioPaused :: bool
  player :: car
  enemies :: "car list"
  spawnTimer :: int
  stripeOffset :: real
  lastMoveTime :: real
  setHighScoreAvailable :: bool
  effects :: "effect list"

definition lanes :: int where
  "lanes = 3"

definition spawnInterval :: int where
  "spawnInterval = 90"

definition minMoveInterval :: real where
  "minMoveInterval = 150"

text \<open>
  The module's top level, for a canvas of width \<open>cw\<close> and height \<open>ch\<close>; \<open>api\<close> says
  whether the preload script has exposed \<^verbatim>\<open>setHighScore\<close>. A fresh audio element is paused
  and \<^verbatim>\<open>animationFrameId\<close> is \<^verbatim>\<open>null\<close>.
\<close>

definition initial :: "real \<Rightarrow> real \<Rightarrow> bool \<Rightarrow> game" where
  "initial cw ch api =
     \<lparr> W = cw, H = ch, running = False, score = 0, speed = 3, highScore = 0,
       animationFrameId = None,
       laneWidth = cw / of_int lanes, roadMargin = 40,
       enemyDefaultW = 40, enemyDefaultH = 70,
       crashAudioLoaded = False, bgAudioLoaded = False, bgAudioPaused = True,
       player = \<lparr> lane = 1, x = (cw / of_int lanes) * 1 + (cw / of_int lanes) / 2,
                  y = ch - 120, w = 40, h = 70, color = ''#0cf'' \<rparr>,
       enemies = [], spawnTimer = 0, stripeOffset = 0, lastMoveTime = 0,
       setHighScoreAvailable = api, effects = [] \<rparr>"

subsection \<open>Helpers\<close>

text \<open>
  JavaScript's \<^verbatim>\<open>%\<close> truncates towards zero: the remainder has the sign of the dividend.
\<close>

definition js_rem :: "int \<Rightarrow> int \<Rightarrow> int" where
  "js_rem a b = sgn a * (\<bar>a\<bar> mod \<bar>b\<bar>)"

text \<open>\<^verbatim>\<open>!animationFrameId\<close> holds for \<^verbatim>\<open>null\<close> and for the number 0.\<close>

fun truthy :: "nat option \<Rightarrow> bool" where
  "truthy None = False"
| "truthy (Some n) = (n \<noteq> 0)"

text \<open>\<^verbatim>\<open>String.prototype.toLowerCase\<close> on the ASCII letters.\<close>

definition toLowerChar :: "char \<Rightarrow> char" where
  "toLowerChar c =
     (case map_of (zip ''ABCDEFGHIJKLMNOPQRSTUVWXYZ'' ''abcdefghijklmnopqrstuvwxyz'') c of
        Some d \<Rightarrow> d
      | None \<Rightarrow> c)"

definition toLowerCase :: "string \<Rightarrow> string" where
  "toLowerCase s = map toLowerChar s"

text \<open>The expression \<^verbatim>\<open>roadMargin + lane * laneWidth + laneWidth / 2\<close>.\<close>

definition centerOf :: "game \<Rightarrow> int \<Rightarrow> real" where
  "centerOf g l = roadMargin g + of_int l * laneWidth g + laneWidth g / 2"

subsection \<open>endGame\<close>

text \<open>
  \<^verbatim>\<open>play()\<close> and \<^verbatim>\<open>pause()\<close> sit in \<^verbatim>\<open>try\<close> blocks whose handlers are empty, so a failing
  playback changes nothing else. The persistence call is guarded by
  \<^verbatim>\<open>window.electronAPI && window.electronAPI.setHighScore\<close>.
\<close>

definition endGame :: "game \<Rightarrow> game" where
  "endGame g =
     (let g1 = g\<lparr>running := False\<rparr>;
          g2 = (if crashAudioLoaded g1
                then g1\<lparr>effects := effects g1 @ [CrashAudioPlay]\<rparr> else g1);
          g3 = (if bgAudioLoaded g2 \<and> \<not> bgAudioPaused g2
                then g2\<lparr>bgAudioPaused := True, effects := effects g2 @ [BgAudioPause]\<rparr>
                else g2)
      in if score g3 > highScore g3
         then (let g4 = g3\<lparr>highScore := score g3\<rparr>
               in if setHighScoreAvailable g4
                  then g4\<lparr>effects := effects g4 @ [SetHighScore (highScore g4)]\<rparr>
                  else g4)
         else g3)"

subsection \<open>spawnEnemy\<close>

text \<open>\<open>r1\<close> and \<open>r2\<close> are the results of the two calls of \<^verbatim>\<open>Math.random()\<close>, in order.\<close>

definition spawnEnemy :: "real \<times> real \<Rightarrow> game \<Rightarrow> game" where
  "spawnEnemy r g =
     (let l = \<lfloor>fst r * of_int lanes\<rfloor>;
          ew = enemyDefaultW g;
          eh = enemyDefaultH g;
          ex = roadMargin g + of_int l * laneWidth g + laneWidth g / 2;
          ey = - eh - snd r * 200
      in g\<lparr>enemies := enemies g @
            [\<lparr> lane = l, x = ex, y = ey, w = ew, h = eh, color = ''#c33'' \<rparr>]\<rparr>)"

subsection \<open>update\<close>

text \<open>
  The loop \<^verbatim>\<open>for (let i = enemies.length - 1; i >= 0; i--)\<close>: the first argument beyond the
  state is \<open>i + 1\<close>, the number of indices still to visit. The entry at \<open>i\<close> is moved
  down by \<open>speed + 1\<close>, put back on its lane centre, and spliced out when it is below
  \<open>H + 100\<close>.
\<close>

fun updateEnemies :: "game \<Rightarrow> nat \<Rightarrow> car list \<Rightarrow> car list" where
  "updateEnemies g 0 es = es"
| "updateEnemies g (Suc i) es =
     (let es1 = es[i := (es ! i)\<lparr>y := y (es ! i) + (speed g + 1)\<rparr>];
          laneCenter = roadMargin g + of_int (lane (es1 ! i)) * laneWidth g + laneWidth g / 2;
          es2 = es1[i := (es1 ! i)\<lparr>x := laneCenter\<rparr>];
          es3 = (if y (es2 ! i) > H g + 100 then take i es2 @ drop (Suc i) es2 else es2)
      in updateEnemies g i es3)"

text \<open>The rectangle test of the collision loop, for the player \<open>p\<close> and an enemy \<open>e\<close>.\<close>

definition overlaps :: "car \<Rightarrow> car \<Rightarrow> bool" where
  "overlaps p e =
     (let px = x p - w p / 2;
          py = y p - h p / 2;
          ex = x e - w e / 2;
          ey = y e - h e / 2
      in px < ex + w e \<and> px + w p > ex \<and> py < ey + h e \<and> py + h p > ey)"

text \<open>The loop \<^verbatim>\<open>for (const e of enemies)\<close> with its \<^verbatim>\<open>break\<close> after \<^verbatim>\<open>endGame()\<close>.\<close>

fun collisionCheck :: "game \<Rightarrow> car list \<Rightarrow> game" where
  "collisionCheck g [] = g"
| "collisionCheck g (e # es) =
     (if overlaps (player g) e then endGame g else collisionCheck g es)"

definition update :: "real \<times> real \<Rightarrow> game \<Rightarrow> game" where
  "update r g =
     (if \<not> running g then g
      else
        let g1 = g\<lparr>score := score g + \<lfloor>speed g / 1.5\<rfloor>\<rparr>;
            g2 = (if js_rem (score g1) 1000 = 0 then g1\<lparr>speed := speed g1 + 0.2\<rparr> else g1);
            g3 = g2\<lparr>player := (player g2)
                    \<lparr>x := roadMargin g2 + of_int (lane (player g2)) * laneWidth g2
                            + laneWidth g2 / 2\<rparr>\<rparr>;
            g4 = g3\<lparr>spawnTimer := spawnTimer g3 + 1\<rparr>;
            g5 = (if spawnTimer g4 \<ge> spawnInterval
                  then spawnEnemy r (g4\<lparr>spawnTimer := 0\<rparr>) else g4);
            g6 = g5\<lparr>enemies := updateEnemies g5 (length (enemies g5)) (enemies g5)\<rparr>;
            g7 = collisionCheck g6 (enemies g6)
        in g7\<lparr>stripeOffset := stripeOffset g7 + speed g7\<rparr>)"

subsection \<open>gameLoop and resetGame\<close>

text \<open>
  \<open>fid\<close> is the handle returned by \<^verbatim>\<open>requestAnimationFrame\<close>. \<^verbatim>\<open>draw()\<close> changes no
  variable of the module.
\<close>

definition gameLoop :: "real \<times> real \<Rightarrow> nat \<Rightarrow> game \<Rightarrow> game" where
  "gameLoop r fid g =
     (let g1 = (if running g then update r g else g)
      in g1\<lparr>animationFrameId := Some fid\<rparr>)"

text \<open>
  \<^verbatim>\<open>resetGame\<close> ends with \<^verbatim>\<open>if (!animationFrameId) gameLoop();\<close>, a direct call: when no
  frame has been requested yet, the first pass of the loop runs before \<^verbatim>\<open>resetGame\<close>
  returns. \<open>r\<close> and \<open>fid\<close> are what that pass reads. The call of \<^verbatim>\<open>bgAudio.play()\<close> is
  recorded as an effect and taken to clear the \<^verbatim>\<open>paused\<close> flag of the element.
\<close>

definition resetGame :: "real \<times> real \<Rightarrow> nat \<Rightarrow> game \<Rightarrow> game" where
  "resetGame r fid g =
     (let g1 = g\<lparr>score := 0, speed := 3, enemies := [], spawnTimer := 0, stripeOffset := 0,
                 player := (player g)\<lparr>lane := 1\<rparr>, running := True\<rparr>;
          g2 = (if bgAudioLoaded g1
                then g1\<lparr>bgAudioPaused := False, effects := effects g1 @ [BgAudioPlay]\<rparr>
                else g1)
      in if \<not> truthy (animationFrameId g2) then gameLoop r fid g2 else g2)"

subsection \<open>The keydown handler\<close>

text \<open>\<open>now\<close> is \<^verbatim>\<open>performance.now()\<close> and \<open>key\<close> is \<^verbatim>\<open>e.key\<close>.\<close>

definition keydown :: "real \<Rightarrow> string \<Rightarrow> game \<Rightarrow> game" where
  "keydown now key g =
     (if now - lastMoveTime g < minMoveInterval then g
      else
        let g1 = (if key = ''ArrowLeft'' \<or> toLowerCase key = ''a''
                  then g\<lparr>player := (player g)\<lparr>lane := max 0 (lane (player g) - 1)\<rparr>,
                         lastMoveTime := now\<rparr>
                  else g)
        in (if key = ''ArrowRight'' \<or> toLowerCase key = ''d''
            then g1\<lparr>player := (player g1)\<lparr>lane := min (lanes - 1) (lane (player g1) + 1)\<rparr>,
                    lastMoveTime := now\<rparr>
            else g1))"

subsection \<open>Runs of events\<close>

text \<open>
  A frame is one call of \<^verbatim>\<open>gameLoop\<close> by the browser, with the random numbers and the
  handle that call reads; \<open>ticks\<close> runs a list of frames in order.
\<close>

fun ticks :: "((real \<times> real) \<times> nat) list \<Rightarrow> game \<Rightarrow> game" where
  "ticks [] g = g"
| "ticks (f # fs) g = ticks fs (gameLoop (fst f) (snd f) g)"

text \<open>A list of keydown events, each with its timestamp and key, handled in order.\<close>

fun keydowns :: "(real \<times> string) list \<Rightarrow> game \<Rightarrow> game" where
  "keydowns [] g = g"
| "keydowns (e # evs) g = keydowns evs (keydown (fst e) (snd e) g)"

text \<open>The arguments of the calls of \<^verbatim>\<open>setHighScore\<close> among the recorded effects.\<close>

fun persistCalls :: "effect list \<Rightarrow> int list" where
  "persistCalls [] = []"
| "persistCalls (SetHighScore v # es) = v # persistCalls es"
| "persistCalls (_ # es) = persistCalls es"

text \<open>
  What one pass of the enemy loop does to a single entry, and the test that splices it out.
\<close>

definition moved :: "game \<Rightarrow> car \<Rightarrow> car" where
  "moved g e = e\<lparr>y := y e + (speed g + 1), x := centerOf g (lane e)\<rparr>"

definition offScreen :: "game \<Rightarrow> car \<Rightarrow> bool" where
  "offScreen g e = (y e > H g + 100)"

text \<open>
  The states the program can be in. It starts from the module's top level; the
  \<^verbatim>\<open>DOMContentLoaded\<close> handler stores what \<^verbatim>\<open>getHighScore\<close> returned; the browser calls
  \<^verbatim>\<open>gameLoop\<close> and the keydown handler; the restart button calls \<^verbatim>\<open>resetGame\<close>, and
  \<^verbatim>\<open>window._game\<close> exposes \<^verbatim>\<open>resetGame\<close> and \<^verbatim>\<open>endGame\<close>. \<^verbatim>\<open>resizeCanvas\<close> and the load
  handlers of the images assign to \<^verbatim>\<open>W\<close>, \<^verbatim>\<open>H\<close>, \<^verbatim>\<open>roadMargin\<close>, \<^verbatim>\<open>laneWidth\<close>, the default
  enemy size, the player's position and size and the \<^verbatim>\<open>x\<close> of the enemies, and to nothing
  else; the audio element and its handlers set the three audio flags. Which values
  these assignments store is left open: rule \<open>layout\<close> and rule \<open>media\<close> admit any.
\<close>

inductive reachable :: "game \<Rightarrow> bool" where
  start: "reachable (initial cw ch api)"
| loadHighScore: "reachable g \<Longrightarrow> reachable (g\<lparr>highScore := v\<rparr>)"
| frame: "reachable g \<Longrightarrow> reachable (gameLoop r fid g)"
| restart: "reachable g \<Longrightarrow> reachable (resetGame r fid g)"
| crash: "reachable g \<Longrightarrow> reachable (endGame g)"
| key: "reachable g \<Longrightarrow> reachable (keydown now k g)"
| layout: "reachable g \<Longrightarrow>
     reachable (g\<lparr>W := cw, H := ch, roadMargin := rm, laneWidth := lw,
                  enemyDefaultW := ew, enemyDefaultH := eh,
                  player := (player g)\<lparr>x := px, y := py, w := pw, h := ph\<rparr>,
                  enemies := map (\<lambda>e. e\<lparr>x := f e\<rparr>) (enemies g)\<rparr>)"
| media: "reachable g \<Longrightarrow>
     reachable (g\<lparr>crashAudioLoaded := a, bgAudioLoaded := b, bgAudioPaused := c\<rparr>)"

subsection \<open>Example states\<close>

text \<open>
  A game in progress on a 480 by 640 canvas, and an enemy car as \<^verbatim>\<open>spawnEnemy\<close> builds it
  with the default size, at horizontal position \<open>ex\<close> and height \<open>ey\<close> in lane \<open>l\<close>.
\<close>

definition racing :: game where
  "racing = (initial 480 640 True)\<lparr>running := True, animationFrameId := Some 1\<rparr>"

definition oncoming :: "int \<Rightarrow> real \<Rightarrow> real \<Rightarrow> car" where
  "oncoming l ex ey = \<lparr> lane = l, x = ex, y = ey, w = 40, h = 70, color = ''#c33'' \<rparr>"

section \<open>Auxiliary facts\<close>

subsection \<open>The remainder test\<close>

lemma js_rem_zero_iff: "js_rem a 1000 = 0 \<longleftrightarrow> a mod 1000 = 0"
proof -
  have "\<bar>a\<bar> mod 1000 = 0 \<longleftrightarrow> a mod 1000 = 0"
    by (simp add: abs_if mod_eq_0_iff_dvd)
  then show ?thesis
    by (auto simp: js_rem_def sgn_if)
qed

subsection \<open>Fields that endGame, spawnEnemy and the collision loop leave alone\<close>

lemma endGame_fields [simp]:
  "score (endGame g) = score g"
  "speed (endGame g) = speed g"
  "running (endGame g) = False"
  "enemies (endGame g) = enemies g"
  "player (endGame g) = player g"
  "stripeOffset (endGame g) = stripeOffset g"
  "spawnTimer (endGame g) = spawnTimer g"
  "H (endGame g) = H g"
  "animationFrameId (endGame g) = animationFrameId g"
  by (simp_all add: endGame_def Let_def)

lemma spawnEnemy_fields [simp]:
  "score (spawnEnemy r g) = score g"
  "speed (spawnEnemy r g) = speed g"
  "running (spawnEnemy r g) = running g"
  "player (spawnEnemy r g) = player g"
  "stripeOffset (spawnEnemy r g) = stripeOffset g"
  "spawnTimer (spawnEnemy r g) = spawnTimer g"
  "H (spawnEnemy r g) = H g"
  "roadMargin (spawnEnemy r g) = roadMargin g"
  "laneWidth (spawnEnemy r g) = laneWidth g"
  "effects (spawnEnemy r g) = effects g"
  "highScore (spawnEnemy r g) = highScore g"
  by (simp_all add: spawnEnemy_def Let_def)

lemma collisionCheck_eq:
  "collisionCheck g es = (if \<exists>e\<in>set es. overlaps (player g) e then endGame g else g)"
  by (induction es) auto

lemma collisionCheck_fields [simp]:
  "score (collisionCheck g es) = score g"
  "speed (collisionCheck g es) = speed g"
  "enemies (collisionCheck g es) = enemies g"
  "player (collisionCheck g es) = player g"
  "stripeOffset (collisionCheck g es) = stripeOffset g"
  "spawnTimer (collisionCheck g es) = spawnTimer g"
  "H (collisionCheck g es) = H g"
  by (simp_all add: collisionCheck_eq)

subsection \<open>The enemy loop as a map followed by a filter\<close>

text \<open>
  Going down from the last index, a splice at \<open>i\<close> moves only entries the loop has
  already visited, so every entry is visited once. After the indices \<open>i\<close> and above
  have been handled, the first \<open>i\<close> entries are still as they were.
\<close>

lemma updateEnemies_prefix:
  "i \<le> length es \<Longrightarrow>
   updateEnemies g i es =
     filter (\<lambda>e. \<not> offScreen g e) (map (moved g) (take i es)) @ drop i es"
proof (induction i arbitrary: es)
  case 0
  then show ?case by simp
next
  case (Suc i)
  then have lt: "i < length es" by simp
  let ?m = "moved g (es ! i)"
  let ?es2 = "es[i := ?m]"
  have step: "updateEnemies g (Suc i) es =
      updateEnemies g i (if offScreen g ?m then take i ?es2 @ drop (Suc i) ?es2 else ?es2)"
    using lt by (simp add: Let_def moved_def offScreen_def centerOf_def)
  have tk: "take (Suc i) es = take i es @ [es ! i]"
    using lt by (simp add: take_Suc_conv_app_nth)
  show ?case
  proof (cases "offScreen g ?m")
    case True
    have "updateEnemies g i (take i ?es2 @ drop (Suc i) ?es2) =
        filter (\<lambda>e. \<not> offScreen g e) (map (moved g) (take i (take i ?es2 @ drop (Suc i) ?es2)))
          @ drop i (take i ?es2 @ drop (Suc i) ?es2)"
      using lt by (intro Suc.IH) simp
    with True step tk lt show ?thesis by simp
  next
    case False
    have "updateEnemies g i ?es2 =
        filter (\<lambda>e. \<not> offScreen g e) (map (moved g) (take i ?es2)) @ drop i ?es2"
      using lt by (intro Suc.IH) simp
    moreover have "drop i ?es2 = ?m # drop (Suc i) es"
      using lt by (simp add: drop_update_cancel Cons_nth_drop_Suc [symmetric] upd_conv_take_nth_drop)
    ultimately show ?thesis using False step tk lt by simp
  qed
qed

lemma updateEnemies_all:
  "updateEnemies g (length es) es = filter (\<lambda>e. \<not> offScreen g e) (map (moved g) es)"
  by (simp add: updateEnemies_prefix)

lemma moved_fun:
  "moved g = (\<lambda>e. e\<lparr>y := y e + (speed g + 1), x := centerOf g (lane e)\<rparr>)"
  by (simp add: moved_def fun_eq_iff)

subsection \<open>The fields of the state after update\<close>

text \<open>
  A running tick, stage by stage: the new score \<open>S\<close>, the new speed \<open>V\<close>, the player \<open>P\<close>
  back on its lane centre, the enemies \<open>E\<close> after spawning, moving and pruning, and the
  state \<open>g6\<close> that enters the collision loop.
\<close>

lemma update_running:
  assumes "running g"
  shows "update r g =
    (let S = score g + \<lfloor>speed g / 1.5\<rfloor>;
         V = (if js_rem S 1000 = 0 then speed g + 0.2 else speed g);
         P = (player g)\<lparr>x := centerOf g (lane (player g))\<rparr>;
         E = filter (\<lambda>e. \<not> y e > H g + 100)
               (map (\<lambda>e. e\<lparr>y := y e + (V + 1), x := centerOf g (lane e)\<rparr>)
                 (if spawnTimer g + 1 \<ge> spawnInterval then enemies (spawnEnemy r g)
                  else enemies g));
         g6 = g\<lparr>score := S, speed := V, player := P,
                 spawnTimer := (if spawnTimer g + 1 \<ge> spawnInterval then 0
                                else spawnTimer g + 1),
                 enemies := E\<rparr>;
         g7 = (if \<exists>e\<in>set E. overlaps P e then endGame g6 else g6)
     in g7\<lparr>stripeOffset := stripeOffset g + V\<rparr>)"
    and "running (update r g) =
      (\<forall>e\<in>set (enemies (update r g)). \<not> overlaps (player (update r g)) e)"
proof -
  define S where "S = score g + \<lfloor>speed g / 1.5\<rfloor>"
  define V where "V = (if js_rem S 1000 = 0 then speed g + 0.2 else speed g)"
  define P where "P = (player g)\<lparr>x := centerOf g (lane (player g))\<rparr>"
  define T where "T = (if spawnTimer g + 1 \<ge> spawnInterval then 0 else spawnTimer g + 1)"
  define E5 where "E5 = (if spawnTimer g + 1 \<ge> spawnInterval then enemies (spawnEnemy r g)
                  else enemies g)"
  define E where "E = filter (\<lambda>e. \<not> y e > H g + 100)
               (map (\<lambda>e. e\<lparr>y := y e + (V + 1), x := centerOf g (lane e)\<rparr>) E5)"
  define g1 where "g1 = g\<lparr>score := score g + \<lfloor>speed g / 1.5\<rfloor>\<rparr>"
  define g2 where "g2 = (if js_rem (score g1) 1000 = 0 then g1\<lparr>speed := speed g1 + 0.2\<rparr> else g1)"
  define g3 where "g3 = g2\<lparr>player := (player g2)
                    \<lparr>x := roadMargin g2 + of_int (lane (player g2)) * laneWidth g2
                            + laneWidth g2 / 2\<rparr>\<rparr>"
  define g4 where "g4 = g3\<lparr>spawnTimer := spawnTimer g3 + 1\<rparr>"
  define g5 where "g5 = (if spawnTimer g4 \<ge> spawnInterval
                  then spawnEnemy r (g4\<lparr>spawnTimer := 0\<rparr>) else g4)"
  define g6 where "g6 = g5\<lparr>enemies := updateEnemies g5 (length (enemies g5)) (enemies g5)\<rparr>"
  define g7 where "g7 = collisionCheck g6 (enemies g6)"
  have U: "update r g = g7\<lparr>stripeOffset := stripeOffset g7 + speed g7\<rparr>"
    by (simp only: update_def Let_def g1_def g2_def g3_def g4_def g5_def g6_def g7_def
        assms not_True_eq_False if_False)
  have e2: "g2 = g\<lparr>score := S, speed := V\<rparr>"
    by (simp add: g2_def g1_def S_def V_def)
  have e3: "g3 = g\<lparr>score := S, speed := V, player := P\<rparr>"
    by (simp add: g3_def e2 P_def centerOf_def)
  have e5: "g5 = g\<lparr>score := S, speed := V, player := P, spawnTimer := T, enemies := E5\<rparr>"
    by (simp add: g5_def g4_def e3 T_def E5_def spawnEnemy_def Let_def)
  have e6: "g6 = g\<lparr>score := S, speed := V, player := P, spawnTimer := T, enemies := E\<rparr>"
    by (simp add: g6_def e5 E_def updateEnemies_all offScreen_def moved_fun centerOf_def)
  have e7: "g7 = (if \<exists>e\<in>set E. overlaps P e then endGame g6 else g6)"
    unfolding g7_def collisionCheck_eq by (simp add: e6)
  have "stripeOffset g7 = stripeOffset g" "speed g7 = V"
    by (simp_all add: e7 e6)
  with U have "update r g = g7\<lparr>stripeOffset := stripeOffset g + V\<rparr>"
    by simp
  then show "update r g =
    (let S = score g + \<lfloor>speed g / 1.5\<rfloor>;
         V = (if js_rem S 1000 = 0 then speed g + 0.2 else speed g);
         P = (player g)\<lparr>x := centerOf g (lane (player g))\<rparr>;
         E = filter (\<lambda>e. \<not> y e > H g + 100)
               (map (\<lambda>e. e\<lparr>y := y e + (V + 1), x := centerOf g (lane e)\<rparr>)
                 (if spawnTimer g + 1 \<ge> spawnInterval then enemies (spawnEnemy r g)
                  else enemies g));
         g6 = g\<lparr>score := S, speed := V, player := P,
                 spawnTimer := (if spawnTimer g + 1 \<ge> spawnInterval then 0
                                else spawnTimer g + 1),
                 enemies := E\<rparr>;
         g7 = (if \<exists>e\<in>set E. overlaps P e then endGame g6 else g6)
     in g7\<lparr>stripeOffset := stripeOffset g + V\<rparr>)"
    unfolding e7 e6 E_def E5_def T_def P_def V_def S_def by (simp only: Let_def)
  have r6: "running g6"
    by (simp add: e6 assms)
  have "running g7 = (\<forall>e\<in>set (enemies g6). \<not> overlaps (player g6) e)"
    unfolding g7_def collisionCheck_eq using r6 by simp
  moreover have "enemies g7 = enemies g6" "player g7 = player g6"
    by (simp_all add: g7_def)
  ultimately show "running (update r g) =
      (\<forall>e\<in>set (enemies (update r g)). \<not> overlaps (player (update r g)) e)"
    unfolding U by simp
qed

lemma score_update:
  "score (update r g) = (if running g then score g + \<lfloor>speed g / 1.5\<rfloor> else score g)"
proof (cases "running g")
  case True
  then show ?thesis by (simp add: update_running(1) Let_def)
next
  case False
  then show ?thesis by (simp add: update_def)
qed

lemma speed_update:
  "speed (update r g) =
     (if running g \<and> js_rem (score g + \<lfloor>speed g / 1.5\<rfloor>) 1000 = 0 then speed g + 0.2 else speed g)"
proof (cases "running g")
  case True
  then show ?thesis by (simp add: update_running(1) Let_def)
next
  case False
  then show ?thesis by (simp add: update_def)
qed

lemma stripeOffset_update:
  "stripeOffset (update r g) =
     (if running g then stripeOffset g + speed (update r g) else stripeOffset g)"
proof (cases "running g")
  case True
  then show ?thesis by (simp add: update_running(1) Let_def)
next
  case False
  then show ?thesis by (simp add: update_def)
qed

lemma player_update:
  "player (update r g) =
     (if running g then (player g)\<lparr>x := centerOf g (lane (player g))\<rparr> else player g)"
proof (cases "running g")
  case True
  then show ?thesis by (simp add: update_running(1) Let_def)
next
  case False
  then show ?thesis by (simp add: update_def)
qed

lemma enemies_update:
  "running g \<Longrightarrow>
   enemies (update r g) =
     filter (\<lambda>e. \<not> y e > H g + 100)
       (map (\<lambda>e. e\<lparr>y := y e + (speed (update r g) + 1), x := centerOf g (lane e)\<rparr>)
         (if spawnTimer g + 1 \<ge> spawnInterval then enemies (spawnEnemy r g) else enemies g))"
  by (simp add: update_running(1) Let_def)

lemma running_update:
  "running g \<Longrightarrow>
   running (update r g) = (\<forall>e\<in>set (enemies (update r g)). \<not> overlaps (player (update r g)) e)"
  by (rule update_running(2))

lemma spawnTimer_update:
  "running g \<Longrightarrow>
   spawnTimer (update r g) = (if spawnTimer g + 1 \<ge> spawnInterval then 0 else spawnTimer g + 1)"
  by (simp add: update_running(1) Let_def)

subsection \<open>Frames\<close>

lemma ticks_append: "ticks (fs @ fs') g = ticks fs' (ticks fs g)"
  by (induction fs arbitrary: g) auto

lemma score_gameLoop:
  "score (gameLoop r fid g) = (if running g then score g + \<lfloor>speed g / 1.5\<rfloor> else score g)"
  by (simp add: gameLoop_def score_update)

lemma speed_gameLoop:
  "speed (gameLoop r fid g) =
     (if running g \<and> js_rem (score g + \<lfloor>speed g / 1.5\<rfloor>) 1000 = 0 then speed g + 0.2 else speed g)"
  by (simp add: gameLoop_def speed_update)

lemma running_gameLoop: "\<not> running g \<Longrightarrow> \<not> running (gameLoop r fid g)"
  by (simp add: gameLoop_def)


lemma score_ticks_le: "0 \<le> speed g \<Longrightarrow> score g \<le> score (ticks fs g)"
proof (induction fs arbitrary: g)
  case Nil
  show ?case by simp
next
  case (Cons f fs)
  let ?g = "gameLoop (fst f) (snd f) g"
  have "0 \<le> speed ?g"
    using Cons.prems by (simp add: speed_gameLoop)
  then have "score ?g \<le> score (ticks fs ?g)"
    by (rule Cons.IH)
  moreover have "score g \<le> score ?g"
    using Cons.prems by (simp add: score_gameLoop)
  ultimately show ?case by simp
qed

lemma score_ticks_frozen: "\<not> running g \<Longrightarrow> score (ticks fs g) = score g"
proof (induction fs arbitrary: g)
  case Nil
  show ?case by simp
next
  case (Cons f fs)
  then show ?case
    using running_gameLoop [of g "fst f" "snd f"] by (simp add: score_gameLoop)
qed

subsection \<open>resetGame with and without a requested frame\<close>

lemma resetGame_looping:
  "truthy (animationFrameId g) \<Longrightarrow>
   resetGame r fid g =
     (let g1 = g\<lparr>score := 0, speed := 3, enemies := [], spawnTimer := 0, stripeOffset := 0,
                 player := (player g)\<lparr>lane := 1\<rparr>, running := True\<rparr>
      in if bgAudioLoaded g1
         then g1\<lparr>bgAudioPaused := False, effects := effects g1 @ [BgAudioPlay]\<rparr>
         else g1)"
  by (simp add: resetGame_def Let_def)

lemma resetGame_first:
  assumes "\<not> truthy (animationFrameId g)"
  shows "score (resetGame r fid g) = 2 \<and> speed (resetGame r fid g) = 3 \<and>
   enemies (resetGame r fid g) = [] \<and> spawnTimer (resetGame r fid g) = 1 \<and>
   stripeOffset (resetGame r fid g) = 3 \<and> lane (player (resetGame r fid g)) = 1 \<and>
   running (resetGame r fid g) \<and> animationFrameId (resetGame r fid g) = Some fid"
proof -
  define g1 where "g1 = g\<lparr>score := 0, speed := 3, enemies := [], spawnTimer := 0,
      stripeOffset := 0, player := (player g)\<lparr>lane := 1\<rparr>, running := True\<rparr>"
  define g2 where "g2 = (if bgAudioLoaded g1
      then g1\<lparr>bgAudioPaused := False, effects := effects g1 @ [BgAudioPlay]\<rparr> else g1)"
  have f: "score g2 = 0" "speed g2 = 3" "enemies g2 = []" "spawnTimer g2 = 0"
    "stripeOffset g2 = 0" "lane (player g2) = 1" "running g2"
    by (simp_all add: g2_def g1_def)
  have "resetGame r fid g = gameLoop r fid g2"
    using assms by (simp add: resetGame_def Let_def g2_def g1_def)
  then have R: "resetGame r fid g = (update r g2)\<lparr>animationFrameId := Some fid\<rparr>"
    by (simp add: gameLoop_def f)
  have "score (update r g2) = 2" "speed (update r g2) = 3"
    by (simp_all add: score_update speed_update f js_rem_def)
  moreover have "enemies (update r g2) = []" "spawnTimer (update r g2) = 1"
    by (simp_all add: enemies_update spawnTimer_update f spawnInterval_def)
  moreover have "stripeOffset (update r g2) = 3" "lane (player (update r g2)) = 1"
    by (simp_all add: stripeOffset_update speed_update player_update f js_rem_def)
  moreover have "running (update r g2)"
    by (simp add: running_update enemies_update f spawnInterval_def)
  ultimately show ?thesis
    unfolding R by simp
qed

subsection \<open>The speed of a reachable state\<close>

lemma speed_keydown: "speed (keydown now k g) = speed g"
  by (simp add: keydown_def Let_def)

lemma speed_resetGame: "3 \<le> speed (resetGame r fid g)"
  by (simp add: resetGame_def Let_def speed_gameLoop)

lemma reachable_speed: "reachable g \<Longrightarrow> 3 \<le> speed g"
proof (induction rule: reachable.induct)
  case (start cw ch api)
  show ?case by (simp add: initial_def)
next
  case (frame g r fid)
  then show ?case by (simp add: speed_gameLoop)
next
  case (restart g r fid)
  show ?case by (rule speed_resetGame)
next
  case (key g now k)
  then show ?case by (simp add: speed_keydown)
qed simp_all

lemma reachable_ticks: "reachable g \<Longrightarrow> reachable (ticks fs g)"
  by (induction fs arbitrary: g) (auto intro: reachable.frame)

subsection \<open>One enemy under repeated passes of the loop\<close>



subsection \<open>endGame and the high score\<close>

lemma highScore_endGame:
  "highScore (endGame g) = (if score g > highScore g then score g else highScore g)"
  by (simp add: endGame_def Let_def)

lemma persistCalls_append: "persistCalls (es @ es') = persistCalls es @ persistCalls es'"
  by (induction es rule: persistCalls.induct) simp_all

lemma persistCalls_endGame:
  "persistCalls (effects (endGame g)) =
     persistCalls (effects g) @
       (if score g > highScore g \<and> setHighScoreAvailable g then [score g] else [])"
  by (simp add: endGame_def Let_def persistCalls_append)

subsection \<open>Lane changes\<close>

lemma lane_keydown_range:
  "0 \<le> lane (player g) \<and> lane (player g) \<le> lanes - 1 \<Longrightarrow>
   0 \<le> lane (player (keydown now k g)) \<and> lane (player (keydown now k g)) \<le> lanes - 1"
  by (simp add: keydown_def Let_def lanes_def)

lemma lane_keydowns_range:
  "0 \<le> lane (player g) \<and> lane (player g) \<le> lanes - 1 \<Longrightarrow>
   0 \<le> lane (player (keydowns evs g)) \<and> lane (player (keydowns evs g)) \<le> lanes - 1"
proof (induction evs arbitrary: g)
  case Nil
  then show ?case by simp
next
  case (Cons e evs)
  from Cons.prems have "0 \<le> lane (player (keydown (fst e) (snd e) g)) \<and>
      lane (player (keydown (fst e) (snd e) g)) \<le> lanes - 1"
    by (rule lane_keydown_range)
  then show ?case
    using Cons.IH by simp
qed

text \<open>No key is a move to the left and a move to the right at once.\<close>

lemma left_not_right:
  "k = ''ArrowLeft'' \<or> toLowerCase k = ''a'' \<Longrightarrow>
   \<not> (k = ''ArrowRight'' \<or> toLowerCase k = ''d'')"
  by (auto simp: toLowerCase_def toLowerChar_def)

lemma lane_keydown_left_edge:
  "lane (player g) = 0 \<Longrightarrow> k = ''ArrowLeft'' \<or> toLowerCase k = ''a'' \<Longrightarrow>
   lane (player (keydown now k g)) = 0"
  using left_not_right [of k] by (auto simp: keydown_def Let_def)

lemma lane_keydown_right_edge:
  "lane (player g) = lanes - 1 \<Longrightarrow> k = ''ArrowRight'' \<or> toLowerCase k = ''d'' \<Longrightarrow>
   lane (player (keydown now k g)) = lanes - 1"
  using left_not_right [of k] by (auto simp: keydown_def Let_def lanes_def)

lemma ArrowRight_not_left:
  "\<not> (''ArrowRight'' = ''ArrowLeft'' \<or> toLowerCase ''ArrowRight'' = ''a'')"
  by (simp add: toLowerCase_def)

subsection \<open>The example states\<close>

lemma racing_fields:
  "running racing" "score racing = 0" "speed racing = 3" "H racing = 640"
  "roadMargin racing = 40" "laneWidth racing = 160" "spawnTimer racing = 0"
  "enemies racing = []" "stripeOffset racing = 0" "lastMoveTime racing = 0"
  "highScore racing = 0" "animationFrameId racing = Some 1"
  "player racing = \<lparr> lane = 1, x = 240, y = 520, w = 40, h = 70, color = ''#0cf'' \<rparr>"
  by (simp_all add: racing_def initial_def lanes_def)

lemma reachable_racing: "reachable racing"
proof -
  have "racing = resetGame (0, 0) 2 (gameLoop (0, 0) 1 (initial 480 640 True))"
    by (simp add: racing_def resetGame_def gameLoop_def initial_def Let_def)
  moreover have "reachable (resetGame (0, 0) 2 (gameLoop (0, 0) 1 (initial 480 640 True)))"
    by (intro reachable.restart reachable.frame reachable.start)
  ultimately show ?thesis by simp
qed

section \<open>The claims\<close>



text \<open>
  C2. The collision loop tests the player's box against an enemy's box with
  \<open>px < ex + ew \<and> px + pw > ex \<and> py < ey + eh \<and> py + ph > ey\<close>, each corner being the centre
  minus half the width or height. When no enemy of the list overlaps, the loop leaves
  the state as it is. When \<open>c\<close> is the first enemy that overlaps, the result is
  \<open>endGame\<close> applied once, whatever enemies \<open>post\<close> follow \<open>c\<close>: they are not looked at.
  In a tick with \<open>running\<close> true, the game is still running afterwards exactly when no
  enemy of the updated list overlaps the player.
\<close>

theorem collision_first_overlap:
  "(overlaps p e \<longleftrightarrow>
      x p - w p / 2 < (x e - w e / 2) + w e \<and> (x p - w p / 2) + w p > x e - w e / 2 \<and>
      y p - h p / 2 < (y e - h e / 2) + h e \<and> (y p - h p / 2) + h p > y e - h e / 2) \<and>
   ((\<forall>c\<in>set es. \<not> overlaps (player g) c) \<longrightarrow> collisionCheck g es = g) \<and>
   ((\<forall>c\<in>set pre. \<not> overlaps (player g) c) \<and> overlaps (player g) c \<longrightarrow>
      collisionCheck g (pre @ c # post) = endGame g) \<and>
   (running g \<longrightarrow>
      running (update r g) =
        (\<forall>c\<in>set (enemies (update r g)). \<not> overlaps (player (update r g)) c))"
proof (intro conjI impI)
  show "overlaps p e \<longleftrightarrow>
      x p - w p / 2 < (x e - w e / 2) + w e \<and> (x p - w p / 2) + w p > x e - w e / 2 \<and>
      y p - h p / 2 < (y e - h e / 2) + h e \<and> (y p - h p / 2) + h p > y e - h e / 2"
    by (simp add: overlaps_def Let_def)
next
  assume "\<forall>c\<in>set es. \<not> overlaps (player g) c"
  then show "collisionCheck g es = g"
    by (induction es) simp_all
next
  assume "(\<forall>c\<in>set pre. \<not> overlaps (player g) c) \<and> overlaps (player g) c"
  then show "collisionCheck g (pre @ c # post) = endGame g"
    by (induction pre) simp_all
next
  assume "running g"
  then show "running (update r g) =
      (\<forall>c\<in>set (enemies (update r g)). \<not> overlaps (player (update r g)) c)"
    by (rule running_update)
qed

text \<open>
  The player of \<open>racing\<close> is centred at (240, 520). An enemy centred at (120, 0) is far
  away, one centred at (240, 500) overlaps. With the far enemy first, the overlapping
  one second and a third behind it, the loop ends the game once. An enemy in the
  player's lane at height 500 is moved to 504 by the next tick and ends the game there.
\<close>

theorem collision_first_overlap_witness:
  "\<not> overlaps (player racing) (oncoming 0 120 0) \<and>
   overlaps (player racing) (oncoming 1 240 500) \<and>
   collisionCheck racing [oncoming 0 120 0] = racing \<and>
   collisionCheck racing ([oncoming 0 120 0] @ oncoming 1 240 500 # [oncoming 1 240 510])
     = endGame racing \<and>
   running (racing\<lparr>enemies := [oncoming 1 280 500]\<rparr>) \<and>
   enemies (update (0, 0) (racing\<lparr>enemies := [oncoming 1 280 500]\<rparr>)) = [oncoming 1 280 504] \<and>
   \<not> running (update (0, 0) (racing\<lparr>enemies := [oncoming 1 280 500]\<rparr>))"
proof -
  have far: "\<not> overlaps (player racing) (oncoming 0 120 0)"
    by (simp add: overlaps_def oncoming_def racing_fields)
  have near: "overlaps (player racing) (oncoming 1 240 500)"
    by (simp add: overlaps_def oncoming_def racing_fields)
  have run: "running (racing\<lparr>enemies := [oncoming 1 280 500]\<rparr>)"
    by (simp add: racing_fields)
  have sp: "speed (update (0, 0) (racing\<lparr>enemies := [oncoming 1 280 500]\<rparr>)) = 3"
    by (simp add: speed_update racing_fields js_rem_def)
  have en: "enemies (update (0, 0) (racing\<lparr>enemies := [oncoming 1 280 500]\<rparr>))
      = [oncoming 1 280 504]"
    unfolding enemies_update [OF run] sp
    by (simp add: racing_fields spawnInterval_def centerOf_def oncoming_def)
  have pl: "player (update (0, 0) (racing\<lparr>enemies := [oncoming 1 280 500]\<rparr>))
      = \<lparr> lane = 1, x = 280, y = 520, w = 40, h = 70, color = ''#0cf'' \<rparr>"
    by (simp add: player_update racing_fields centerOf_def)
  have hit: "overlaps \<lparr> lane = 1, x = 280, y = 520, w = 40, h = 70, color = ''#0cf'' \<rparr>
      (oncoming 1 280 504)"
    by (simp add: overlaps_def oncoming_def)
  show ?thesis
    using collision_first_overlap [where g = racing and es = "[oncoming 0 120 0]"
        and pre = "[oncoming 0 120 0]" and c = "oncoming 1 240 500"
        and post = "[oncoming 1 240 510]"]
      collision_first_overlap [where g = "racing\<lparr>enemies := [oncoming 1 280 500]\<rparr>"
        and r = "(0, 0)"]
      far near run en pl hit
    by simp
qed

text \<open>
  C3, as the code has it. When a frame has already been requested (\<open>animationFrameId\<close> is
  set, as it is after the first call), \<open>resetGame\<close> returns score 0, speed 3, no enemies,
  spawn timer 0, stripe offset 0, the player in lane 1 and \<open>running\<close> true, from any prior
  state; a second call right after returns the same state again, up to the effects
  recorded (the background audio is started once more). When no frame has been requested
  yet, \<open>resetGame\<close> runs the first pass of the loop itself: it returns score 2, spawn timer
  1 and stripe offset 3, with the other fields as before, and has requested a frame.
\<close>

theorem resetGame_state:
  "(truthy (animationFrameId g) \<longrightarrow>
      score (resetGame r fid g) = 0 \<and> speed (resetGame r fid g) = 3 \<and>
      enemies (resetGame r fid g) = [] \<and> spawnTimer (resetGame r fid g) = 0 \<and>
      stripeOffset (resetGame r fid g) = 0 \<and> lane (player (resetGame r fid g)) = 1 \<and>
      running (resetGame r fid g) \<and>
      (resetGame r' fid' (resetGame r fid g))\<lparr>effects := []\<rparr>
        = (resetGame r fid g)\<lparr>effects := []\<rparr>) \<and>
   (\<not> truthy (animationFrameId g) \<longrightarrow>
      score (resetGame r fid g) = 2 \<and> speed (resetGame r fid g) = 3 \<and>
      enemies (resetGame r fid g) = [] \<and> spawnTimer (resetGame r fid g) = 1 \<and>
      stripeOffset (resetGame r fid g) = 3 \<and> lane (player (resetGame r fid g)) = 1 \<and>
      running (resetGame r fid g) \<and> animationFrameId (resetGame r fid g) = Some fid)"
proof (intro conjI impI)
  assume t: "truthy (animationFrameId g)"
  have t': "truthy (animationFrameId (resetGame r fid g))"
    using t by (simp add: resetGame_looping Let_def)
  show "(resetGame r' fid' (resetGame r fid g))\<lparr>effects := []\<rparr>
        = (resetGame r fid g)\<lparr>effects := []\<rparr>"
    unfolding resetGame_looping [OF t'] unfolding resetGame_looping [OF t]
    by (simp add: Let_def)
qed (simp_all add: resetGame_looping resetGame_first Let_def)

text \<open>
  A game that has ended with score 55 and one enemy on the road, restarted while the
  loop is going; and the first call, from the module's initial state.
\<close>

theorem resetGame_state_witness:
  "truthy (animationFrameId (endGame (racing\<lparr>score := 55, enemies := [oncoming 1 280 504]\<rparr>))) \<and>
   score (resetGame (0, 0) 2 (endGame (racing\<lparr>score := 55, enemies := [oncoming 1 280 504]\<rparr>))) = 0 \<and>
   enemies (resetGame (0, 0) 2 (endGame (racing\<lparr>score := 55, enemies := [oncoming 1 280 504]\<rparr>))) = [] \<and>
   running (resetGame (0, 0) 2 (endGame (racing\<lparr>score := 55, enemies := [oncoming 1 280 504]\<rparr>))) \<and>
   \<not> truthy (animationFrameId (initial 480 640 True)) \<and>
   score (resetGame (0, 0) 1 (initial 480 640 True)) = 2 \<and>
   animationFrameId (resetGame (0, 0) 1 (initial 480 640 True)) = Some 1"
proof -
  have a: "truthy (animationFrameId (endGame (racing\<lparr>score := 55, enemies := [oncoming 1 280 504]\<rparr>)))"
    by (simp add: racing_fields)
  have b: "\<not> truthy (animationFrameId (initial 480 640 True))"
    by (simp add: initial_def)
  show ?thesis
    using a b
      resetGame_state [of "endGame (racing\<lparr>score := 55, enemies := [oncoming 1 280 504]\<rparr>)"
        "(0, 0)" 2]
      resetGame_state [of "initial 480 640 True" "(0, 0)" 1]
    by simp
qed

text \<open>
  The claim as the specification states it fails on the first call: from the initial
  state \<open>resetGame\<close> returns score 2, spawn timer 1 and stripe offset 3, and a second call
  right after it returns score 0, so twice is not the same as once.
\<close>

theorem resetGame_first_call_counterexample:
  "score (resetGame (0, 0) 1 (initial 480 640 True)) = 2 \<and>
   spawnTimer (resetGame (0, 0) 1 (initial 480 640 True)) = 1 \<and>
   stripeOffset (resetGame (0, 0) 1 (initial 480 640 True)) = 3 \<and>
   score (resetGame (0, 0) 2 (resetGame (0, 0) 1 (initial 480 640 True))) = 0"
proof -
  have n: "\<not> truthy (animationFrameId (initial 480 640 True))"
    by (simp add: initial_def)
  have t: "truthy (animationFrameId (resetGame (0, 0) 1 (initial 480 640 True)))"
    using resetGame_first [OF n, of "(0, 0)" 1] by simp
  show ?thesis
    using resetGame_first [OF n, of "(0, 0)" 1] resetGame_looping [OF t, of "(0, 0)" 2]
    by (simp add: Let_def)
qed




text \<open>
  C5, as the code has it. \<open>endGame\<close> sets \<open>running\<close> to false. The high score becomes the
  score exactly when the score is strictly greater, and is unchanged otherwise. One call
  of \<open>setHighScore\<close>, with the score, is made exactly when the score is strictly greater
  and \<open>setHighScore\<close> is available; otherwise no call is made.
\<close>

theorem endGame_high_score:
  "running (endGame g) = False \<and>
   highScore (endGame g) = (if score g > highScore g then score g else highScore g) \<and>
   persistCalls (effects (endGame g)) =
     persistCalls (effects g) @
       (if score g > highScore g \<and> setHighScoreAvailable g then [score g] else [])"
  by (simp add: highScore_endGame persistCalls_endGame)

text \<open>A new high score of 10 is stored and persisted; an equal score changes nothing.\<close>

theorem endGame_high_score_witness:
  "highScore (endGame (racing\<lparr>score := 10\<rparr>)) = 10 \<and>
   persistCalls (effects (endGame (racing\<lparr>score := 10\<rparr>))) = [10] \<and>
   highScore (endGame (racing\<lparr>score := 10, highScore := 10\<rparr>)) = 10 \<and>
   persistCalls (effects (endGame (racing\<lparr>score := 10, highScore := 10\<rparr>))) = []"
  using endGame_high_score [of "racing\<lparr>score := 10\<rparr>"]
    endGame_high_score [of "racing\<lparr>score := 10, highScore := 10\<rparr>"]
  by (simp add: racing_def initial_def)

text \<open>
  Without \<open>setHighScore\<close> (the page opened outside the Electron shell) a score of 10
  beats the high score 0 and is stored as the new high score, and no persistence call is
  made: a greater score alone does not bring the call about.
\<close>

theorem endGame_no_persist_counterexample:
  "score ((initial 480 640 False)\<lparr>running := True, score := 10\<rparr>)
     > highScore ((initial 480 640 False)\<lparr>running := True, score := 10\<rparr>) \<and>
   highScore (endGame ((initial 480 640 False)\<lparr>running := True, score := 10\<rparr>)) = 10 \<and>
   persistCalls (effects (endGame ((initial 480 640 False)\<lparr>running := True, score := 10\<rparr>))) = []"
  by (simp add: initial_def endGame_def Let_def)

text \<open>
  C6. Starting from a lane in \<open>[0, lanes - 1]\<close>, the lane is in \<open>[0, lanes - 1]\<close> after
  every prefix of every list of keydown events. A move to the left in lane 0 and a move
  to the right in lane \<open>lanes - 1\<close> leave the lane where it is.
\<close>

theorem lane_clamped:
  "0 \<le> lane (player g) \<and> lane (player g) \<le> lanes - 1 \<Longrightarrow>
   (\<forall>n. 0 \<le> lane (player (keydowns (take n evs) g)) \<and>
        lane (player (keydowns (take n evs) g)) \<le> lanes - 1) \<and>
   (lane (player g) = 0 \<and> (k = ''ArrowLeft'' \<or> toLowerCase k = ''a'') \<longrightarrow>
      lane (player (keydown now k g)) = 0) \<and>
   (lane (player g) = lanes - 1 \<and> (k = ''ArrowRight'' \<or> toLowerCase k = ''d'') \<longrightarrow>
      lane (player (keydown now k g)) = lanes - 1)"
  using lane_keydowns_range lane_keydown_left_edge lane_keydown_right_edge by blast

text \<open>
  From the centre lane, two accepted moves to the right end in lane 2; in lane 0 a
  further \<^verbatim>\<open>ArrowLeft\<close>, and in lane 2 a further \<^verbatim>\<open>D\<close>, change nothing.
\<close>

theorem lane_clamped_witness:
  "0 \<le> lane (player racing) \<and> lane (player racing) \<le> lanes - 1 \<and>
   lane (player (keydowns [(200, ''ArrowRight''), (400, ''ArrowRight'')] racing)) = 2 \<and>
   lane (player (keydowns (take 1 [(200, ''ArrowRight''), (400, ''ArrowRight'')]) racing))
     \<le> lanes - 1 \<and>
   lane (player (keydown 200 ''ArrowLeft'' (racing\<lparr>player := (player racing)\<lparr>lane := 0\<rparr>\<rparr>))) = 0 \<and>
   lane (player (keydown 200 ''D'' (racing\<lparr>player := (player racing)\<lparr>lane := 2\<rparr>\<rparr>))) = 2"
proof -
  have a: "0 \<le> lane (player racing) \<and> lane (player racing) \<le> lanes - 1"
    by (simp add: racing_fields lanes_def)
  have b: "0 \<le> lane (player (racing\<lparr>player := (player racing)\<lparr>lane := 0\<rparr>\<rparr>)) \<and>
      lane (player (racing\<lparr>player := (player racing)\<lparr>lane := 0\<rparr>\<rparr>)) \<le> lanes - 1"
    by (simp add: lanes_def)
  have c: "0 \<le> lane (player (racing\<lparr>player := (player racing)\<lparr>lane := 2\<rparr>\<rparr>)) \<and>
      lane (player (racing\<lparr>player := (player racing)\<lparr>lane := 2\<rparr>\<rparr>)) \<le> lanes - 1"
    by (simp add: lanes_def)
  have d: "toLowerCase ''D'' = ''d''"
    by (simp add: toLowerCase_def toLowerChar_def)
  have e: "lane (player (keydowns [(200, ''ArrowRight''), (400, ''ArrowRight'')] racing)) = 2"
    by (simp add: keydown_def Let_def racing_fields minMoveInterval_def lanes_def
        toLowerCase_def)
  have f: "lane (player (keydowns (take 1 [(200, ''ArrowRight''), (400, ''ArrowRight'')]) racing))
      \<le> lanes - 1"
    using lane_clamped [OF a, of "[(200, ''ArrowRight''), (400, ''ArrowRight'')]"] by blast
  show ?thesis
    using a e f
      lane_clamped [OF b, of "[]" "''ArrowLeft''" 200]
      lane_clamped [OF c, of "[]" "''D''" 200]
    by (simp add: d lanes_def)
qed

text \<open>
  C7. A keydown event changes the state only if at least 150 ms lie between its
  timestamp and \<open>lastMoveTime\<close>, and then it sets \<open>lastMoveTime\<close> to its own timestamp, so
  \<open>lastMoveTime\<close> is the time of the last accepted request. When a move to the right is
  accepted, a second one less than 150 ms later (50 ms, say) leaves the state as the
  first one left it: only the first changes the lane. For any two events less than
  150 ms apart, at most one changes the state.
\<close>

theorem keydown_debounce:
  "(keydown now k g \<noteq> g \<longrightarrow>
      now - lastMoveTime g \<ge> minMoveInterval \<and> lastMoveTime (keydown now k g) = now) \<and>
   (now - lastMoveTime g \<ge> minMoveInterval \<and> d < minMoveInterval \<longrightarrow>
      lane (player (keydown now ''ArrowRight'' g)) = min (lanes - 1) (lane (player g) + 1) \<and>
      lastMoveTime (keydown now ''ArrowRight'' g) = now \<and>
      keydown (now + d) ''ArrowRight'' (keydown now ''ArrowRight'' g)
        = keydown now ''ArrowRight'' g) \<and>
   (d < minMoveInterval \<longrightarrow>
      keydown now k g = g \<or> keydown (now + d) k' (keydown now k g) = keydown now k g)"
proof (intro conjI impI)
  assume "keydown now k g \<noteq> g"
  then show "now - lastMoveTime g \<ge> minMoveInterval"
    by (auto simp: keydown_def Let_def split: if_splits)
next
  assume "keydown now k g \<noteq> g"
  then show "lastMoveTime (keydown now k g) = now"
    by (auto simp: keydown_def Let_def split: if_splits)
next
  assume a: "now - lastMoveTime g \<ge> minMoveInterval \<and> d < minMoveInterval"
  show "lane (player (keydown now ''ArrowRight'' g)) = min (lanes - 1) (lane (player g) + 1)"
    using a ArrowRight_not_left by (simp add: keydown_def Let_def)
  show tm: "lastMoveTime (keydown now ''ArrowRight'' g) = now"
    using a ArrowRight_not_left by (simp add: keydown_def Let_def)
  show "keydown (now + d) ''ArrowRight'' (keydown now ''ArrowRight'' g)
        = keydown now ''ArrowRight'' g"
    using a tm by (simp add: keydown_def [of "now + d"])
next
  assume d: "d < minMoveInterval"
  show "keydown now k g = g \<or> keydown (now + d) k' (keydown now k g) = keydown now k g"
  proof (cases "keydown now k g = g")
    case True
    then show ?thesis by simp
  next
    case False
    then have "lastMoveTime (keydown now k g) = now"
      by (auto simp: keydown_def Let_def split: if_splits)
    with d show ?thesis
      by (simp add: keydown_def [of "now + d"])
  qed
qed

text \<open>
  \<^verbatim>\<open>ArrowRight\<close> at 200 ms moves the player from lane 1 to lane 2; \<^verbatim>\<open>ArrowRight\<close> again
  at 250 ms is ignored.
\<close>

theorem keydown_debounce_witness:
  "keydown 200 ''ArrowRight'' racing \<noteq> racing \<and>
   200 - lastMoveTime racing \<ge> minMoveInterval \<and> 50 < minMoveInterval \<and>
   lane (player racing) = 1 \<and>
   lane (player (keydown 200 ''ArrowRight'' racing)) = 2 \<and>
   lastMoveTime (keydown 200 ''ArrowRight'' racing) = 200 \<and>
   keydown (200 + 50) ''ArrowRight'' (keydown 200 ''ArrowRight'' racing)
     = keydown 200 ''ArrowRight'' racing"
proof -
  have a: "200 - lastMoveTime racing \<ge> minMoveInterval \<and> 50 < minMoveInterval"
    by (simp add: racing_fields minMoveInterval_def)
  have b: "lastMoveTime (keydown 200 ''ArrowRight'' racing) \<noteq> lastMoveTime racing"
    using a ArrowRight_not_left by (simp add: keydown_def Let_def racing_fields)
  then have c: "keydown 200 ''ArrowRight'' racing \<noteq> racing"
    by auto
  show ?thesis
    using a c keydown_debounce [of 200 "''ArrowRight''" racing 50]
    by (simp add: racing_fields lanes_def)
qed

text \<open>
  C8. In every state the program can reach and along every list of frames, the score
  after more frames is at least the score after fewer, and once \<open>running\<close> is false the
  frames that follow leave the score as it is.
\<close>

theorem score_monotone_frozen:
  "reachable g \<Longrightarrow>
   score (ticks fs g) \<le> score (ticks (fs @ fs') g) \<and>
   (\<not> running (ticks fs g) \<longrightarrow> score (ticks (fs @ fs') g) = score (ticks fs g))"
proof -
  assume "reachable g"
  then have "reachable (ticks fs g)" by (rule reachable_ticks)
  then have "0 \<le> speed (ticks fs g)" using reachable_speed by fastforce
  then show ?thesis
    by (simp add: ticks_append score_ticks_le score_ticks_frozen)
qed

text \<open>
  Two frames of the running game take the score from 0 to 2 and to 4. After a crash the
  score 0 stays through a further frame.
\<close>

theorem score_monotone_frozen_witness:
  "reachable racing \<and>
   score (ticks [((0, 0), 2)] racing) = 2 \<and>
   score (ticks ([((0, 0), 2)] @ [((0, 0), 3)]) racing) = 4 \<and>
   reachable (endGame racing) \<and> \<not> running (ticks [] (endGame racing)) \<and>
   score (ticks ([] @ [((0, 0), 2)]) (endGame racing)) = score (ticks [] (endGame racing))"
proof -
  have e: "reachable (endGame racing)"
    by (intro reachable.crash reachable_racing)
  have s1: "score (gameLoop (0, 0) 2 racing) = 2" "speed (gameLoop (0, 0) 2 racing) = 3"
    by (simp_all add: score_gameLoop speed_gameLoop racing_fields js_rem_def)
  have r1: "running (gameLoop (0, 0) 2 racing)"
    by (simp add: gameLoop_def running_update enemies_update racing_fields spawnInterval_def)
  have s2: "score (gameLoop (0, 0) 3 (gameLoop (0, 0) 2 racing)) = 4"
    unfolding score_gameLoop [of _ 3] by (simp add: s1 r1)
  show ?thesis
    using reachable_racing e s1 s2
      score_monotone_frozen [OF reachable_racing, of "[((0, 0), 2)]" "[((0, 0), 3)]"]
      score_monotone_frozen [OF e, of "[]" "[((0, 0), 2)]"]
    by simp
qed



text \<open>
  C10. When \<open>running\<close> is false, \<open>update\<close> returns the state it was given: score, speed,
  the enemies and their positions, the spawn timer, the stripe offset, the player and
  every other field are unchanged.
\<close>

theorem update_not_running_noop: "\<not> running g \<Longrightarrow> update r g = g"
  by (simp add: update_def)

text \<open>After a crash with an enemy on the road, a further \<open>update\<close> changes nothing.\<close>

theorem update_not_running_noop_witness:
  "\<not> running (endGame (racing\<lparr>score := 55, enemies := [oncoming 1 280 504]\<rparr>)) \<and>
   update (0.5, 0.5) (endGame (racing\<lparr>score := 55, enemies := [oncoming 1 280 504]\<rparr>))
     = endGame (racing\<lparr>score := 55, enemies := [oncoming 1 280 504]\<rparr>)"
  using update_not_running_noop
    [of "endGame (racing\<lparr>score := 55, enemies := [oncoming 1 280 504]\<rparr>)" "(0.5, 0.5)"]
  by simp

end
